theory Spec2Isabelle
  imports Main "HOL-Library.Word"
begin

section \<open>Cluster configuration (cluster/config.go)\<close>

text \<open>
  Opaque collaborators (providers, lookups, remote configuration, props, strategies,
  cluster contexts) are references; the model only stores and forwards them.
  A \<open>*Cluster\<close> and an \<open>*actor.ActorSystem\<close> are references as well.
\<close>

type_synonym ClusterProvider = nat
type_synonym IdentityLookup = nat
type_synonym RemoteConfig = nat
type_synonym Props = nat
type_synonym MemberStrategy = nat
type_synonym ClusterContext = nat

datatype Cluster = ClusterRef nat
datatype ActorSystem = ActorSystemRef nat

text \<open>
  \<open>time.Duration\<close> counts nanoseconds; the constants below are those of Go's
  \<open>time\<close> package. Every duration of this file is a constant far inside the range of
  \<open>int64\<close>.
\<close>

type_synonym Duration = int

definition Millisecond :: Duration where
  "Millisecond = 1000000"

definition Second :: Duration where
  "Second = 1000000000"

text \<open>
  Go's run-time panics that the configuration code can reach: a field read through a nil
  \<open>*Kind\<close>, and an assignment to an entry of a nil map.
\<close>

datatype panic = NilPointerDereference | AssignmentToNilMap

text \<open>\<open>type Kind struct\<close>. A nil \<open>StrategyBuilder\<close> is \<open>None\<close>; a builder may return a nil
  strategy.\<close>

record Kind =
  KindName :: string
  KindProps :: Props
  StrategyBuilder :: "(Cluster \<Rightarrow> MemberStrategy option) option"

text \<open>\<open>type Config struct\<close>. The map \<open>Kinds\<close> is \<open>None\<close> when it is the nil map.\<close>

record Config =
  Name :: string
  Address :: string
  ClusterProvider :: ClusterProvider
  IdentityLookup :: IdentityLookup
  RemoteConfig :: RemoteConfig
  RequestTimeoutTime :: Duration
  RequestsLogThrottlePeriod :: Duration
  MaxNumberOfEventsInRequestLogThrottledPeriod :: int
  ClusterContextProducer :: "Cluster \<Rightarrow> ClusterContext"
  MemberStrategyBuilder :: "Cluster \<Rightarrow> string \<Rightarrow> MemberStrategy option"
  Kinds :: "(string \<rightharpoonup> Kind) option"
  TimeoutTime :: Duration
  GossipInterval :: Duration
  GossipRequestTimeout :: Duration
  GossipFanOut :: int
  GossipMaxSend :: int

text \<open>
  The package-level defaults \<open>Configure\<close> reads are declared in files that are not among
  the sources; they are parameters of the model.
\<close>

record Defaults =
  defaultActorRequestTimeout :: Duration
  defaultRequestsLogThrottlePeriod :: Duration
  defaultMaxNumberOfEvetsInRequestLogThrottledPeriod :: int
  newDefaultMemberStrategy :: "Cluster \<Rightarrow> string \<Rightarrow> MemberStrategy option"
  newDefaultClusterContext :: "Cluster \<Rightarrow> ClusterContext"

text \<open>\<open>type ConfigOption func(config *Config)\<close>: the option updates the configuration in
  place; here it returns the updated configuration, or the panic it raised.\<close>

type_synonym ConfigOption = "Config \<Rightarrow> panic + Config"

text \<open>The loop \<open>for _, option := range options { option(config) }\<close>.\<close>

fun apply_options :: "ConfigOption list \<Rightarrow> Config \<Rightarrow> panic + Config" where
  "apply_options [] config = Inr config"
| "apply_options (option # options) config =
     (case option config of
        Inl e \<Rightarrow> Inl e
      | Inr config' \<Rightarrow> apply_options options config')"

definition Configure ::
  "Defaults \<Rightarrow> string \<Rightarrow> ClusterProvider \<Rightarrow> IdentityLookup \<Rightarrow> RemoteConfig \<Rightarrow>
   ConfigOption list \<Rightarrow> panic + Config" where
  "Configure d clusterName clusterProvider identityLookup remoteConfig options =
     apply_options options
       \<lparr> Name = clusterName,
         Address = [],
         ClusterProvider = clusterProvider,
         IdentityLookup = identityLookup,
         RemoteConfig = remoteConfig,
         RequestTimeoutTime = defaultActorRequestTimeout d,
         RequestsLogThrottlePeriod = defaultRequestsLogThrottlePeriod d,
         MaxNumberOfEventsInRequestLogThrottledPeriod =
           defaultMaxNumberOfEvetsInRequestLogThrottledPeriod d,
         ClusterContextProducer = newDefaultClusterContext d,
         MemberStrategyBuilder = newDefaultMemberStrategy d,
         Kinds = Some Map.empty,
         TimeoutTime = Second * 5,
         GossipInterval = Millisecond * 300,
         GossipRequestTimeout = Millisecond * 500,
         GossipFanOut = 3,
         GossipMaxSend = 50 \<rparr>"

definition WithRequestTimeout :: "Duration \<Rightarrow> ConfigOption" where
  "WithRequestTimeout t = (\<lambda>c. Inr (c\<lparr>RequestTimeoutTime := t\<rparr>))"

definition WithRequestsLogThrottlePeriod :: "Duration \<Rightarrow> ConfigOption" where
  "WithRequestsLogThrottlePeriod period = (\<lambda>c. Inr (c\<lparr>RequestsLogThrottlePeriod := period\<rparr>))"

definition WithClusterContextProducer :: "(Cluster \<Rightarrow> ClusterContext) \<Rightarrow> ConfigOption" where
  "WithClusterContextProducer producer = (\<lambda>c. Inr (c\<lparr>ClusterContextProducer := producer\<rparr>))"

definition WithMaxNumberOfEventsInRequestLogThrottlePeriod :: "int \<Rightarrow> ConfigOption" where
  "WithMaxNumberOfEventsInRequestLogThrottlePeriod maxNumber =
     (\<lambda>c. Inr (c\<lparr>MaxNumberOfEventsInRequestLogThrottledPeriod := maxNumber\<rparr>))"

text \<open>
  \<open>WithKinds\<close>: the loop \<open>for _, kind := range kinds { c.Kinds[kind.Kind] = kind }\<close>.
  An element of \<open>kinds\<close> is a \<open>*Kind\<close>, \<open>None\<close> when nil. In the assignment Go evaluates
  the index operand \<open>kind.Kind\<close> first (a nil \<open>kind\<close> panics there) and then stores into
  the map (a nil map panics there).
\<close>

fun WithKinds :: "Kind option list \<Rightarrow> ConfigOption" where
  "WithKinds [] c = Inr c"
| "WithKinds (None # kinds) c = Inl NilPointerDereference"
| "WithKinds (Some kind # kinds) c =
     (case Kinds c of
        None \<Rightarrow> Inl AssignmentToNilMap
      | Some m \<Rightarrow> WithKinds kinds (c\<lparr>Kinds := Some (m(KindName kind \<mapsto> kind))\<rparr>))"

text \<open>\<open>func (k *Kind) WithMemberStrategy\<close>.\<close>

definition WithMemberStrategy :: "(Cluster \<Rightarrow> MemberStrategy option) \<Rightarrow> Kind \<Rightarrow> Kind" where
  "WithMemberStrategy strategyBuilder k = k\<lparr>StrategyBuilder := Some strategyBuilder\<rparr>"

text \<open>\<open>type ActivatedKind struct\<close>; \<open>count\<close> is an \<open>int32\<close>, read as two's complement by
  \<open>sint\<close>.\<close>

record ActivatedKind =
  ActivatedKindName :: string
  ActivatedProps :: Props
  Strategy :: "MemberStrategy option"
  count :: "32 word"

text \<open>\<open>func (k *Kind) Build\<close>: the composite literal leaves \<open>count\<close> at its zero value.\<close>

definition Build :: "Kind \<Rightarrow> Cluster \<Rightarrow> ActivatedKind" where
  "Build k cluster =
     (let strategy = (case StrategyBuilder k of
                        None \<Rightarrow> None
                      | Some builder \<Rightarrow> builder cluster)
      in \<lparr> ActivatedKindName = KindName k,
           ActivatedProps = KindProps k,
           Strategy = strategy,
           count = 0 \<rparr>)"

text \<open>\<open>atomic.AddInt32(&ak.count, 1)\<close> and \<open>atomic.AddInt32(&ak.count, -1)\<close>: the addition
  wraps around at 32 bits.\<close>

definition Inc :: "ActivatedKind \<Rightarrow> ActivatedKind" where
  "Inc ak = ak\<lparr>count := count ak + 1\<rparr>"

definition Dev :: "ActivatedKind \<Rightarrow> ActivatedKind" where
  "Dev ak = ak\<lparr>count := count ak + (- 1)\<rparr>"

text \<open>
  Each of the two calls is one atomic read-modify-write, so any concurrent execution of a
  set of calls acts on the counter as some sequence of them. A history is such a
  sequence; an observation point is the end of any prefix of it.
\<close>

datatype counter_call = IncCall | DevCall

fun counter_step :: "ActivatedKind \<Rightarrow> counter_call \<Rightarrow> ActivatedKind" where
  "counter_step ak IncCall = Inc ak"
| "counter_step ak DevCall = Dev ak"

definition run_calls :: "counter_call list \<Rightarrow> ActivatedKind \<Rightarrow> ActivatedKind" where
  "run_calls calls ak = foldl counter_step ak calls"

definition calls_of :: "counter_call \<Rightarrow> counter_call list \<Rightarrow> nat" where
  "calls_of c calls = length (filter (\<lambda>x. x = c) calls)"

section \<open>The cluster receive middleware (cluster/config.go)\<close>

text \<open>\<open>actor.PID\<close>, and the identity of a grain (\<open>ClusterIdentity{Identity, Kind}\<close>).\<close>

record PID =
  PidAddress :: string
  PidId :: string

record ClusterIdentity =
  Identity :: string
  IdentityKind :: string

text \<open>
  The dynamic type of \<open>envelope.Message\<close>, as the type switch of the middleware sees it:
  \<open>*actor.Started\<close>, \<open>*actor.Stopped\<close>, or anything else. \<open>*ClusterInit\<close> is spelled out
  among the others because the middleware builds it; its \<open>Identity\<close> is a pointer,
  \<open>None\<close> when nil.
\<close>

datatype 'm Message =
    Started
  | Stopped
  | ClusterInit "ClusterIdentity option" Cluster
  | UserMessage 'm

text \<open>\<open>actor.MessageEnvelope{Header, Message, Sender}\<close>; a nil header or sender is
  \<open>None\<close>.\<close>

record 'm MessageEnvelope =
  Header :: "(string \<times> string) list option"
  Message :: "'m Message"
  Sender :: "PID option"

text \<open>
  Modelled from the spec: \<open>actor.WrapEnvelope\<close> is not among the sources. The spec has the
  ClusterInit signal delivered "as a second, distinct message": the wrapper is a fresh
  envelope around the message, with no header and no sender.
\<close>

definition WrapEnvelope :: "'m Message \<Rightarrow> 'm MessageEnvelope" where
  "WrapEnvelope message = \<lparr> Header = None, Message = message, Sender = None \<rparr>"

text \<open>What the middleware reads from its \<open>actor.ReceiverContext\<close> directly.\<close>

record ReceiverContext =
  Self :: PID
  ActorSystem :: ActorSystem

text \<open>\<open>ActivationTerminating{Pid, ClusterIdentity}\<close>, the one event the middleware
  publishes.\<close>

datatype Event = ActivationTerminating PID ClusterIdentity

text \<open>
  The collaborators of the middleware are declared outside the sources: the cluster
  singleton lookup \<open>GetCluster\<close>, the identity lookup \<open>GetClusterIdentity\<close>, the event
  stream's \<open>Publish\<close> and the identity cache's \<open>RemoveByValue\<close>. They are parameters of
  the model, over a state \<open>'s\<close> that stands for everything they and the wrapped pipeline
  can read and change (context extensions, subscribers, cache contents, the grain's own
  state).
\<close>

record 's Collaborators =
  GetCluster :: "ActorSystem \<Rightarrow> 's \<Rightarrow> Cluster"
  GetClusterIdentity :: "ReceiverContext \<Rightarrow> 's \<Rightarrow> ClusterIdentity option"
  Publish :: "Cluster \<Rightarrow> Event \<Rightarrow> 's \<Rightarrow> 's"
  RemoveByValue :: "Cluster \<Rightarrow> string \<Rightarrow> string \<Rightarrow> PID \<Rightarrow> 's \<Rightarrow> 's"

text \<open>\<open>actor.ReceiverFunc\<close>: the wrapped pipeline, any state transformer.\<close>

type_synonym ('m, 's) ReceiverFunc = "ReceiverContext \<Rightarrow> 'm MessageEnvelope \<Rightarrow> 's \<Rightarrow> 's"

text \<open>
  The effects of the middleware, in the order it performs them. A run pairs the state
  with the record of these effects; neither a collaborator nor the wrapped pipeline can
  touch the record.
\<close>

datatype 'm Effect =
    EventStreamPublish Cluster Event
  | PidCacheRemoveByValue Cluster string string PID
  | Next ReceiverContext "'m MessageEnvelope"

record ('m, 's) Run =
  trace :: "'m Effect list"
  state :: 's

definition publish :: "'s Collaborators \<Rightarrow> Cluster \<Rightarrow> Event \<Rightarrow> ('m, 's) Run \<Rightarrow> ('m, 's) Run" where
  "publish ext cl ev r =
     \<lparr> trace = trace r @ [EventStreamPublish cl ev], state = Publish ext cl ev (state r) \<rparr>"

definition removeByValue ::
  "'s Collaborators \<Rightarrow> Cluster \<Rightarrow> string \<Rightarrow> string \<Rightarrow> PID \<Rightarrow> ('m, 's) Run \<Rightarrow> ('m, 's) Run" where
  "removeByValue ext cl identity kind pid r =
     \<lparr> trace = trace r @ [PidCacheRemoveByValue cl identity kind pid],
       state = RemoveByValue ext cl identity kind pid (state r) \<rparr>"

definition callNext ::
  "('m, 's) ReceiverFunc \<Rightarrow> ReceiverContext \<Rightarrow> 'm MessageEnvelope \<Rightarrow> ('m, 's) Run \<Rightarrow> ('m, 's) Run" where
  "callNext next c envelope r =
     \<lparr> trace = trace r @ [Next c envelope], state = next c envelope (state r) \<rparr>"

definition handleStopped ::
  "'s Collaborators \<Rightarrow> ReceiverContext \<Rightarrow> ('m, 's) ReceiverFunc \<Rightarrow> 'm MessageEnvelope \<Rightarrow>
   ('m, 's) Run \<Rightarrow> ('m, 's) Run" where
  "handleStopped ext c next envelope r =
     (let cl = GetCluster ext (ActorSystem c) (state r);
          identity = GetClusterIdentity ext c (state r);
          r' = (case identity of
                  None \<Rightarrow> r
                | Some i \<Rightarrow>
                    removeByValue ext cl (Identity i) (IdentityKind i) (Self c)
                      (publish ext cl (ActivationTerminating (Self c) i) r))
      in callNext next c envelope r')"

definition handleStarted ::
  "'s Collaborators \<Rightarrow> ReceiverContext \<Rightarrow> ('m, 's) ReceiverFunc \<Rightarrow> 'm MessageEnvelope \<Rightarrow>
   ('m, 's) Run \<Rightarrow> ('m, 's) Run" where
  "handleStarted ext c next envelope r =
     (let r' = callNext next c envelope r;
          cl = GetCluster ext (ActorSystem c) (state r');
          identity = GetClusterIdentity ext c (state r');
          grainInit = ClusterInit identity cl;
          ge = WrapEnvelope grainInit
      in callNext next c ge r')"

text \<open>The receiver that \<open>withClusterReceiveMiddleware\<close> puts in front of \<open>next\<close>.\<close>

definition withClusterReceiveMiddleware ::
  "'s Collaborators \<Rightarrow> ('m, 's) ReceiverFunc \<Rightarrow> ReceiverContext \<Rightarrow> 'm MessageEnvelope \<Rightarrow>
   ('m, 's) Run \<Rightarrow> ('m, 's) Run" where
  "withClusterReceiveMiddleware ext next c envelope r =
     (case Message envelope of
        Started \<Rightarrow> handleStarted ext c next envelope r
      | Stopped \<Rightarrow> handleStopped ext c next envelope r
      | _ \<Rightarrow> callNext next c envelope r)"

subsection \<open>A concrete set of collaborators\<close>

text \<open>
  Modelled from the spec: the collaborators as the spec describes them, for running the
  middleware on concrete inputs. The context holds the identity attached at construction
  (or none); the event stream keeps what was published, in order; the identity cache maps
  (identity, kind) to a process reference, and its removal is value-qualified: the entry
  goes only if it still holds the given process reference. There is one cluster per
  actor system.
\<close>

record World =
  boundIdentity :: "ClusterIdentity option"
  published :: "Event list"
  pidCache :: "((string \<times> string) \<times> PID) list"
  delivered :: "nat Message list"

definition worldCollaborators :: "World Collaborators" where
  "worldCollaborators =
     \<lparr> GetCluster = (\<lambda>sys w. case sys of ActorSystemRef n \<Rightarrow> ClusterRef n),
       GetClusterIdentity = (\<lambda>c w. boundIdentity w),
       Publish = (\<lambda>cl ev w. w\<lparr>published := published w @ [ev]\<rparr>),
       RemoveByValue = (\<lambda>cl identity kind pid w.
          w\<lparr>pidCache := filter (\<lambda>e. e \<noteq> ((identity, kind), pid)) (pidCache w)\<rparr>) \<rparr>"

text \<open>A grain that records every message it is handed.\<close>

definition recordingGrain :: "(nat, World) ReceiverFunc" where
  "recordingGrain c envelope w = w\<lparr>delivered := delivered w @ [Message envelope]\<rparr>"

section \<open>The grain generator (protobuf/protoc-gen-go-grain/generate.go)\<close>

text \<open>
  What \<open>generateService\<close> reads of a \<open>protogen.Method\<close>: its Go name, the identifiers of
  its input and output messages, the two streaming flags of its descriptor, and the
  \<open>method_options\<close> extension of its options (\<open>None\<close> when the method carries no such
  annotation).
\<close>

record GoIdent =
  GoName :: string
  GoImportPath :: string

record MethodOptions =
  reenterable :: bool

record Method =
  MethodGoName :: string
  MethodInput :: GoIdent
  MethodOutput :: GoIdent
  IsStreamingClient :: bool
  IsStreamingServer :: bool
  MethodExtension :: "MethodOptions option"

record Service =
  ServiceGoName :: string
  ServiceDeprecated :: bool
  Methods :: "Method list"

text \<open>\<open>methodDesc\<close> and \<open>serviceDesc\<close>, as \<open>generateService\<close> fills them. \<open>Index\<close> is the loop
  index of \<open>range\<close>, never negative.\<close>

record methodDesc =
  mdName :: string
  mdInput :: string
  mdOutput :: string
  Index :: nat
  Reenterable :: bool

record serviceDesc =
  sdName :: string
  sdMethods :: "methodDesc list"

text \<open>
  \<open>proto.GetExtension(method.Desc.Options(), options.E_MethodOptions).(*options.MethodOptions)\<close>.
  The protobuf library returns the value of the extension, and for an extension that is
  not set the empty value of its type, a nil \<open>*options.MethodOptions\<close>; either way the
  value has the Go type the extension is registered with, so the type assertion holds.
  The pair is the asserted pointer (\<open>None\<close> when nil) and \<open>ok\<close>.
\<close>

definition GetExtension_MethodOptions :: "Method \<Rightarrow> MethodOptions option \<times> bool" where
  "GetExtension_MethodOptions method = (MethodExtension method, True)"

text \<open>
  Modelled from the spec: the getter \<open>GetReenterable\<close> of the generated options package is
  not among the sources. The spec gives the annotation as "\<open>reenterable\<close> (boolean, default
  false)": the getter of a nil pointer returns false.
\<close>

definition GetReenterable :: "MethodOptions option \<Rightarrow> bool" where
  "GetReenterable x = (case x of None \<Rightarrow> False | Some opts \<Rightarrow> reenterable opts)"

text \<open>
  The loop \<open>for i, method := range service.Methods\<close> of \<open>generateService\<close>, from index \<open>i\<close>
  on, appending to \<open>sd.Methods\<close>. \<open>qualifiedGoIdent\<close> stands for \<open>g.QualifiedGoIdent\<close> of
  the protogen library.
\<close>

fun generateService_loop ::
  "(GoIdent \<Rightarrow> string) \<Rightarrow> nat \<Rightarrow> Method list \<Rightarrow> methodDesc list \<Rightarrow> methodDesc list" where
  "generateService_loop qualifiedGoIdent i [] methods = methods"
| "generateService_loop qualifiedGoIdent i (method # rest) methods =
     (if IsStreamingClient method \<or> IsStreamingServer method
      then generateService_loop qualifiedGoIdent (Suc i) rest methods
      else (case GetExtension_MethodOptions method of
              (methodOptions, ok) \<Rightarrow>
                if \<not> ok
                then generateService_loop qualifiedGoIdent (Suc i) rest methods
                else generateService_loop qualifiedGoIdent (Suc i) rest
                       (methods @
                          [\<lparr> mdName = MethodGoName method,
                             mdInput = qualifiedGoIdent (MethodInput method),
                             mdOutput = qualifiedGoIdent (MethodOutput method),
                             Index = i,
                             Reenterable = GetReenterable methodOptions \<rparr>])))"

text \<open>The service descriptor that \<open>generateService\<close> hands to its template.\<close>

definition generateService_desc :: "(GoIdent \<Rightarrow> string) \<Rightarrow> Service \<Rightarrow> serviceDesc" where
  "generateService_desc qualifiedGoIdent service =
     \<lparr> sdName = ServiceGoName service,
       sdMethods = generateService_loop qualifiedGoIdent 0 (Methods service) [] \<rparr>"

definition deprecationComment :: string where
  "deprecationComment = ''// Deprecated: Do not use.''"

text \<open>
  \<open>generateService\<close>: the lines it prints with \<open>g.P\<close>. \<open>execute\<close> stands for
  \<open>sd.execute()\<close>, the template of the generator, which is not among the sources.
\<close>

definition generateService ::
  "(GoIdent \<Rightarrow> string) \<Rightarrow> (serviceDesc \<Rightarrow> string) \<Rightarrow> Service \<Rightarrow> string list" where
  "generateService qualifiedGoIdent execute service =
     (let header = (if ServiceDeprecated service then [''//'', deprecationComment] else []);
          sd = generateService_desc qualifiedGoIdent service
      in if length (sdMethods sd) \<noteq> 0 then header @ [execute sd] else header)"

text \<open>The service \<open>Hello\<close> of the reentrancy example (its \<open>.proto\<close> file).\<close>

definition helloService :: Service where
  "helloService =
     \<lparr> ServiceGoName = ''Hello'',
       ServiceDeprecated = False,
       Methods =
         [\<lparr> MethodGoName = ''InvokeService'',
            MethodInput = \<lparr> GoName = ''InvokeServiceRequest'', GoImportPath = ''main'' \<rparr>,
            MethodOutput = \<lparr> GoName = ''InvokeServiceResponse'', GoImportPath = ''main'' \<rparr>,
            IsStreamingClient = False,
            IsStreamingServer = False,
            MethodExtension = Some \<lparr> reenterable = True \<rparr> \<rparr>,
          \<lparr> MethodGoName = ''DoWork'',
            MethodInput = \<lparr> GoName = ''DoWorkRequest'', GoImportPath = ''main'' \<rparr>,
            MethodOutput = \<lparr> GoName = ''DoWorkResponse'', GoImportPath = ''main'' \<rparr>,
            IsStreamingClient = False,
            IsStreamingServer = False,
            MethodExtension = None \<rparr>] \<rparr>"

section \<open>Concrete inputs\<close>

text \<open>A kind "Hello", a second kind registered under the same name, and the configuration
  that \<open>Configure\<close> starts from when every collaborator and default is the reference 0.\<close>

definition helloKind :: Kind where
  "helloKind = \<lparr> KindName = ''Hello'', KindProps = 1, StrategyBuilder = None \<rparr>"

definition helloKind2 :: Kind where
  "helloKind2 = \<lparr> KindName = ''Hello'', KindProps = 2, StrategyBuilder = None \<rparr>"

definition exampleDefaults :: Defaults where
  "exampleDefaults =
     \<lparr> defaultActorRequestTimeout = 0,
       defaultRequestsLogThrottlePeriod = 0,
       defaultMaxNumberOfEvetsInRequestLogThrottledPeriod = 0,
       newDefaultMemberStrategy = (\<lambda>cluster kind. None),
       newDefaultClusterContext = (\<lambda>cluster. 0) \<rparr>"

definition exampleConfig :: Config where
  "exampleConfig =
     \<lparr> Name = ''cluster'',
       Address = [],
       ClusterProvider = 0,
       IdentityLookup = 0,
       RemoteConfig = 0,
       RequestTimeoutTime = 0,
       RequestsLogThrottlePeriod = 0,
       MaxNumberOfEventsInRequestLogThrottledPeriod = 0,
       ClusterContextProducer = (\<lambda>cluster. 0),
       MemberStrategyBuilder = (\<lambda>cluster kind. None),
       Kinds = Some Map.empty,
       TimeoutTime = Second * 5,
       GossipInterval = Millisecond * 300,
       GossipRequestTimeout = Millisecond * 500,
       GossipFanOut = 3,
       GossipMaxSend = 50 \<rparr>"

text \<open>An activation of kind "Hello" with identity "user-1", its context, the two lifecycle
  signals and a business message, and two worlds: one where the identity is bound and
  cached, one where no identity is bound.\<close>

definition userIdentity :: ClusterIdentity where
  "userIdentity = \<lparr> Identity = ''user-1'', IdentityKind = ''Hello'' \<rparr>"

definition examplePid :: PID where
  "examplePid = \<lparr> PidAddress = ''node1'', PidId = ''user-1'' \<rparr>"

definition exampleContext :: ReceiverContext where
  "exampleContext = \<lparr> Self = examplePid, ActorSystem = ActorSystemRef 0 \<rparr>"

definition startedEnvelope :: "nat MessageEnvelope" where
  "startedEnvelope = \<lparr> Header = None, Message = Started, Sender = None \<rparr>"

definition stoppedEnvelope :: "nat MessageEnvelope" where
  "stoppedEnvelope = \<lparr> Header = None, Message = Stopped, Sender = None \<rparr>"

definition userEnvelope :: "nat MessageEnvelope" where
  "userEnvelope = \<lparr> Header = Some [(''trace'', ''1'')], Message = UserMessage 7, Sender = Some examplePid \<rparr>"

definition boundWorld :: World where
  "boundWorld =
     \<lparr> boundIdentity = Some userIdentity,
       published = [],
       pidCache = [((''user-1'', ''Hello''), examplePid)],
       delivered = [] \<rparr>"

definition unboundWorld :: World where
  "unboundWorld =
     \<lparr> boundIdentity = None,
       published = [],
       pidCache = [((''user-1'', ''Hello''), examplePid)],
       delivered = [] \<rparr>"

section \<open>The live-instance counter\<close>

lemma count_foldl:
  "count (foldl counter_step ak calls) =
     count ak + word_of_int (int (calls_of IncCall calls) - int (calls_of DevCall calls))"
proof (induction calls arbitrary: ak)
  case Nil
  show ?case by (simp add: calls_of_def)
next
  case (Cons c calls)
  show ?case
    by (cases c) (simp_all add: Cons.IH calls_of_def Inc_def Dev_def)
qed

lemma count_run_calls:
  "count (run_calls calls (Build k cl)) =
     word_of_int (int (calls_of IncCall calls) - int (calls_of DevCall calls))"
  by (simp add: run_calls_def count_foldl Build_def)

lemma calls_of_replicate:
  "calls_of IncCall (replicate n IncCall) = n" "calls_of DevCall (replicate n IncCall) = 0"
  by (simp_all add: calls_of_def)

text \<open>
  C1, as the code has it. For every history of \<open>Inc\<close> and \<open>Dev\<close> calls on a freshly built
  ActivatedKind and every observation point (the end of a prefix of the history), the
  counter is the number of \<open>Inc\<close> calls minus the number of \<open>Dev\<close> calls so far, reduced to
  a signed 32-bit value. Whenever the \<open>Dev\<close> calls so far do not outnumber the \<open>Inc\<close>
  calls and the difference is below \<open>2 ^ 31\<close>, the counter is exactly that difference and
  is not negative.
\<close>

theorem liveCount_net_calls:
  "sint (count (run_calls (take n calls) (Build k cl))) =
     signed_take_bit 31
       (int (calls_of IncCall (take n calls)) - int (calls_of DevCall (take n calls)))
   \<and> (calls_of DevCall (take n calls) \<le> calls_of IncCall (take n calls) \<and>
        calls_of IncCall (take n calls) - calls_of DevCall (take n calls) < 2 ^ 31 \<longrightarrow>
        sint (count (run_calls (take n calls) (Build k cl))) =
          int (calls_of IncCall (take n calls)) - int (calls_of DevCall (take n calls)) \<and>
        0 \<le> sint (count (run_calls (take n calls) (Build k cl))))"
proof -
  let ?i = "calls_of IncCall (take n calls)" and ?d = "calls_of DevCall (take n calls)"
  have wrap: "sint (count (run_calls (take n calls) (Build k cl))) =
      signed_take_bit 31 (int ?i - int ?d)"
  proof -
    have "sint (word_of_int x :: 32 word) = signed_take_bit 31 x" for x
      by (simp add: sint_sbintrunc')
    then show ?thesis by (simp only: count_run_calls)
  qed
  have exact: "signed_take_bit 31 (int ?i - int ?d) = int ?i - int ?d"
    if "?d \<le> ?i" and "?i - ?d < 2 ^ 31"
  proof (rule signed_take_bit_int_eq_self)
    from that(1) have "0 \<le> int ?i - int ?d" by simp
    then show "- (2 ^ 31) \<le> int ?i - int ?d" by simp
    from that have "int (?i - ?d) < 2 ^ 31"
      by (metis of_nat_less_iff of_nat_numeral of_nat_power)
    with that(1) show "int ?i - int ?d < 2 ^ 31" by simp
  qed
  show ?thesis using wrap exact by simp
qed

text \<open>The theorem of C1 at the history Inc, Inc, Dev, Dev, observed after three calls: the
  counter is 1.\<close>

theorem liveCount_net_calls_witness:
  "calls_of DevCall (take 3 [IncCall, IncCall, DevCall, DevCall])
     \<le> calls_of IncCall (take 3 [IncCall, IncCall, DevCall, DevCall])
   \<and> calls_of IncCall (take 3 [IncCall, IncCall, DevCall, DevCall])
       - calls_of DevCall (take 3 [IncCall, IncCall, DevCall, DevCall]) < 2 ^ 31
   \<and> sint (count (run_calls (take 3 [IncCall, IncCall, DevCall, DevCall])
        (Build helloKind (ClusterRef 0)))) = 1"
  using liveCount_net_calls [of 3 "[IncCall, IncCall, DevCall, DevCall]" helloKind "ClusterRef 0"]
  by (simp add: calls_of_def)

text \<open>C1 as stated fails: nothing keeps the counter from going below zero, and it wraps
  around at 32 bits. One \<open>Dev\<close> call on a freshly built ActivatedKind leaves it at -1;
  \<open>2 ^ 31\<close> calls of \<open>Inc\<close> leave it at \<open>- (2 ^ 31)\<close>.\<close>

theorem liveCount_negative_after_Dev:
  "sint (count (run_calls [DevCall] (Build helloKind (ClusterRef 0)))) = - 1
   \<and> \<not> 0 \<le> sint (count (run_calls [DevCall] (Build helloKind (ClusterRef 0))))
   \<and> sint (count (run_calls (replicate (2 ^ 31) IncCall) (Build helloKind (ClusterRef 0))))
       = - (2 ^ 31)"
proof -
  have a: "sint (count (run_calls [DevCall] (Build helloKind (ClusterRef 0)))) = - 1"
    by (simp add: run_calls_def Build_def Dev_def helloKind_def)
  have b: "sint (count (run_calls (replicate (2 ^ 31) IncCall)
             (Build helloKind (ClusterRef 0)))) = - (2 ^ 31)"
    by (simp add: count_run_calls calls_of_replicate)
  show ?thesis using a b by simp
qed

section \<open>The middleware\<close>

lemma handleStarted_run:
  "handleStarted ext c next envelope r =
     (let s' = next c envelope (state r);
          ge = WrapEnvelope
                 (ClusterInit (GetClusterIdentity ext c s') (GetCluster ext (ActorSystem c) s'))
      in \<lparr> trace = trace r @ [Next c envelope, Next c ge], state = next c ge s' \<rparr>)"
  by (simp add: handleStarted_def callNext_def Let_def)

lemma handleStopped_bound:
  "GetClusterIdentity ext c (state r) = Some i \<Longrightarrow>
   handleStopped ext c next envelope r =
     (let cl = GetCluster ext (ActorSystem c) (state r)
      in \<lparr> trace = trace r @
             [EventStreamPublish cl (ActivationTerminating (Self c) i),
              PidCacheRemoveByValue cl (Identity i) (IdentityKind i) (Self c),
              Next c envelope],
           state = next c envelope
             (RemoveByValue ext cl (Identity i) (IdentityKind i) (Self c)
                (Publish ext cl (ActivationTerminating (Self c) i) (state r))) \<rparr>)"
  by (simp add: handleStopped_def callNext_def publish_def removeByValue_def Let_def)


lemmas examples =
  worldCollaborators_def recordingGrain_def exampleContext_def examplePid_def
  startedEnvelope_def stoppedEnvelope_def userEnvelope_def boundWorld_def unboundWorld_def
  userIdentity_def WrapEnvelope_def

text \<open>
  C2. On the start signal the middleware first hands the signal to the wrapped pipeline;
  in the state that call returns it reads the bound identity and the cluster, builds the
  ClusterInit message from them, wraps it in a fresh envelope and hands that to the same
  pipeline. Its effects are exactly these two deliveries, in this order, and the final
  state is that of the second delivery applied after the first.
\<close>

theorem start_then_ClusterInit:
  assumes "Message envelope = Started"
  shows "withClusterReceiveMiddleware ext next c envelope r =
     (let s' = next c envelope (state r);
          grainInit = ClusterInit (GetClusterIdentity ext c s')
                        (GetCluster ext (ActorSystem c) s');
          ge = \<lparr> Header = None, Message = grainInit, Sender = None \<rparr>
      in \<lparr> trace = trace r @ [Next c envelope, Next c ge], state = next c ge s' \<rparr>)"
  using assms
  by (simp add: withClusterReceiveMiddleware_def handleStarted_run WrapEnvelope_def Let_def)

text \<open>The theorem of C2 at the activation "user-1" of kind "Hello": the recording grain is
  handed the start signal and then ClusterInit with that identity, and nothing else.\<close>

theorem start_then_ClusterInit_witness:
  "Message startedEnvelope = Started
   \<and> withClusterReceiveMiddleware worldCollaborators recordingGrain exampleContext
        startedEnvelope \<lparr> trace = [], state = boundWorld \<rparr> =
      \<lparr> trace = [Next exampleContext startedEnvelope,
                 Next exampleContext
                   \<lparr> Header = None,
                     Message = ClusterInit (Some userIdentity) (ClusterRef 0),
                     Sender = None \<rparr>],
        state = boundWorld
          \<lparr>delivered := [Started, ClusterInit (Some userIdentity) (ClusterRef 0)]\<rparr> \<rparr>"
  using start_then_ClusterInit [of startedEnvelope worldCollaborators recordingGrain
      exampleContext "\<lparr> trace = [], state = boundWorld \<rparr>"]
  by (simp add: examples Let_def)

text \<open>
  C3. On the stop signal, when the context has an identity bound, the middleware performs
  exactly three effects in this order: it publishes ActivationTerminating with the
  process reference and the identity on the event stream of the cluster, it calls the
  value-qualified removal of the identity cache with (identity, kind, process reference),
  and then it hands the stop signal to the wrapped pipeline, which runs in the state the
  first two left.
\<close>

theorem stop_bound_publish_remove_forward:
  assumes "Message envelope = Stopped"
    and "GetClusterIdentity ext c (state r) = Some i"
  shows "withClusterReceiveMiddleware ext next c envelope r =
     (let cl = GetCluster ext (ActorSystem c) (state r);
          s1 = Publish ext cl (ActivationTerminating (Self c) i) (state r);
          s2 = RemoveByValue ext cl (Identity i) (IdentityKind i) (Self c) s1
      in \<lparr> trace = trace r @
             [EventStreamPublish cl (ActivationTerminating (Self c) i),
              PidCacheRemoveByValue cl (Identity i) (IdentityKind i) (Self c),
              Next c envelope],
           state = next c envelope s2 \<rparr>)"
  using assms by (simp add: withClusterReceiveMiddleware_def handleStopped_bound Let_def)

text \<open>The theorem of C3 at the activation "user-1" of kind "Hello", bound and cached: the
  event is published, the cache entry is gone, and the grain is handed the stop signal.\<close>

theorem stop_bound_publish_remove_forward_witness:
  "Message stoppedEnvelope = Stopped
   \<and> GetClusterIdentity worldCollaborators exampleContext
        (state \<lparr> trace = [], state = boundWorld \<rparr>) = Some userIdentity
   \<and> withClusterReceiveMiddleware worldCollaborators recordingGrain exampleContext
        stoppedEnvelope \<lparr> trace = ([] :: nat Effect list), state = boundWorld \<rparr> =
      \<lparr> trace = [EventStreamPublish (ClusterRef 0)
                   (ActivationTerminating examplePid userIdentity),
                 PidCacheRemoveByValue (ClusterRef 0) ''user-1'' ''Hello'' examplePid,
                 Next exampleContext stoppedEnvelope],
        state = \<lparr> boundIdentity = Some userIdentity,
                  published = [ActivationTerminating examplePid userIdentity],
                  pidCache = [],
                  delivered = [Stopped] \<rparr> \<rparr>"
  using stop_bound_publish_remove_forward [of stoppedEnvelope worldCollaborators
      exampleContext "\<lparr> trace = [], state = boundWorld \<rparr>" userIdentity recordingGrain]
  by (simp add: examples Let_def)



text \<open>
  C6. For every message that is neither the start signal nor the stop signal, the
  middleware hands the envelope, as it is, to the next receiver and has no other effect.
\<close>

theorem other_messages_pass_through:
  assumes "Message envelope \<noteq> Started" and "Message envelope \<noteq> Stopped"
  shows "withClusterReceiveMiddleware ext next c envelope r =
     \<lparr> trace = trace r @ [Next c envelope], state = next c envelope (state r) \<rparr>"
  using assms
  by (cases "Message envelope") (simp_all add: withClusterReceiveMiddleware_def callNext_def)

text \<open>The theorem of C6 at a business message with a header and a sender.\<close>

theorem other_messages_pass_through_witness:
  "Message userEnvelope \<noteq> Started \<and> Message userEnvelope \<noteq> Stopped
   \<and> withClusterReceiveMiddleware worldCollaborators recordingGrain exampleContext
        userEnvelope \<lparr> trace = [], state = boundWorld \<rparr> =
      \<lparr> trace = [Next exampleContext userEnvelope],
        state = boundWorld\<lparr>delivered := [UserMessage 7]\<rparr> \<rparr>"
  using other_messages_pass_through [of userEnvelope worldCollaborators recordingGrain
      exampleContext "\<lparr> trace = [], state = boundWorld \<rparr>"]
  by (simp add: examples)



section \<open>The generator\<close>

lemma generateService_loop_enumerate:
  "generateService_loop q i ms acc =
     acc @ map (\<lambda>(j, method).
                 \<lparr> mdName = MethodGoName method,
                   mdInput = q (MethodInput method),
                   mdOutput = q (MethodOutput method),
                   Index = j,
                   Reenterable = (case MethodExtension method of
                                    None \<Rightarrow> False
                                  | Some opts \<Rightarrow> reenterable opts) \<rparr>)
             (filter (\<lambda>(j, method). \<not> IsStreamingClient method \<and> \<not> IsStreamingServer method)
                (enumerate i ms))"
proof (induction ms arbitrary: i acc)
  case Nil
  show ?case by simp
next
  case (Cons m ms)
  show ?case
    by (simp add: Cons.IH GetExtension_MethodOptions_def GetReenterable_def)
qed

text \<open>
  C7. The descriptors the generator collects for a service are, in order, one for each
  method that streams in neither direction and none for the others; the descriptor of a
  method carries the method's position in the service's method list as \<open>Index\<close> and the
  method's \<open>reenterable\<close> annotation as \<open>Reenterable\<close>, false when the method has no
  annotation.
\<close>

theorem descriptors_of_non_streaming_methods:
  "sdMethods (generateService_desc q service) =
     map (\<lambda>(i, method).
            \<lparr> mdName = MethodGoName method,
              mdInput = q (MethodInput method),
              mdOutput = q (MethodOutput method),
              Index = i,
              Reenterable = (case MethodExtension method of
                               None \<Rightarrow> False
                             | Some opts \<Rightarrow> reenterable opts) \<rparr>)
       (filter (\<lambda>(i, method). \<not> IsStreamingClient method \<and> \<not> IsStreamingServer method)
          (enumerate 0 (Methods service)))"
  by (simp add: generateService_desc_def generateService_loop_enumerate)

text \<open>The theorem of C7 at the service \<open>Hello\<close>: InvokeService at index 0, reenterable, and
  DoWork at index 1, not reenterable.\<close>

theorem descriptors_of_non_streaming_methods_witness:
  "sdMethods (generateService_desc GoName helloService) =
     [\<lparr> mdName = ''InvokeService'', mdInput = ''InvokeServiceRequest'',
        mdOutput = ''InvokeServiceResponse'', Index = 0, Reenterable = True \<rparr>,
      \<lparr> mdName = ''DoWork'', mdInput = ''DoWorkRequest'',
        mdOutput = ''DoWorkResponse'', Index = 1, Reenterable = False \<rparr>]"
  using descriptors_of_non_streaming_methods [of GoName helloService]
  by (simp add: helloService_def enumerate_eq_zip upt_rec)

text \<open>What \<open>generateService\<close> prints: the deprecation comment of a deprecated service, and
  the rendered template exactly when some method streams in neither direction.\<close>

lemma filter_enumerate_snd:
  "map snd (filter (\<lambda>(j, x). P x) (enumerate i xs)) = filter P xs"
  by (induction xs arbitrary: i) simp_all

lemma length_generateService_desc:
  "length (sdMethods (generateService_desc q service)) =
     length (filter (\<lambda>method. \<not> IsStreamingClient method \<and> \<not> IsStreamingServer method)
               (Methods service))"
proof -
  let ?P = "\<lambda>method. \<not> IsStreamingClient method \<and> \<not> IsStreamingServer method"
  have "length (filter (\<lambda>(j, x). ?P x) (enumerate 0 (Methods service))) =
        length (filter ?P (Methods service))"
    by (metis (no_types) filter_enumerate_snd length_map)
  then show ?thesis
    by (simp add: generateService_desc_def generateService_loop_enumerate)
qed

lemma generateService_output:
  "generateService q execute service =
     (if ServiceDeprecated service then [''//'', deprecationComment] else []) @
     (if filter (\<lambda>method. \<not> IsStreamingClient method \<and> \<not> IsStreamingServer method)
           (Methods service) = []
      then []
      else [execute (generateService_desc q service)])"
proof -
  have "(sdMethods (generateService_desc q service) = []) =
        (filter (\<lambda>method. \<not> IsStreamingClient method \<and> \<not> IsStreamingServer method)
           (Methods service) = [])"
    using length_generateService_desc [of q service] by (metis length_0_conv)
  then show ?thesis by (simp add: generateService_def Let_def)
qed

section \<open>Registration and defaults\<close>

text \<open>
  C8. On a configuration whose map of kinds is allocated (as \<open>Configure\<close> allocates it),
  registering two kinds of the same name, in one call or in two options, raises no panic
  and leaves the map as registering the second alone would: the name is bound to the
  second kind. Registering the same kind twice gives what registering it once gives.
\<close>

theorem last_registration_wins:
  assumes "Kinds c = Some m" and "KindName k1 = KindName k2"
  shows "WithKinds [Some k1, Some k2] c = Inr (c\<lparr>Kinds := Some (m(KindName k2 \<mapsto> k2))\<rparr>)
     \<and> apply_options [WithKinds [Some k1], WithKinds [Some k2]] c =
         Inr (c\<lparr>Kinds := Some (m(KindName k2 \<mapsto> k2))\<rparr>)
     \<and> apply_options [WithKinds [Some k2], WithKinds [Some k2]] c =
         apply_options [WithKinds [Some k2]] c
     \<and> Configure d n cp il rc [WithKinds [Some k1, Some k2]] =
         Configure d n cp il rc [WithKinds [Some k2]]
     \<and> Configure d n cp il rc [WithKinds [Some k2], WithKinds [Some k2]] =
         Configure d n cp il rc [WithKinds [Some k2]]
     \<and> (case Configure d n cp il rc [WithKinds [Some k1], WithKinds [Some k2]] of
          Inl e \<Rightarrow> False
        | Inr c' \<Rightarrow> Kinds c' = Some [KindName k2 \<mapsto> k2])"
  using assms by (simp add: Configure_def)

text \<open>The theorem of C8 at two kinds named "Hello" with different props: the entry that
  remains is the second kind's, and it is the only one.\<close>

theorem last_registration_wins_witness:
  "Kinds exampleConfig = Some Map.empty \<and> KindName helloKind = KindName helloKind2
   \<and> (case WithKinds [Some helloKind, Some helloKind2] exampleConfig of
        Inl e \<Rightarrow> False
      | Inr c' \<Rightarrow>
          (case Kinds c' of
             None \<Rightarrow> False
           | Some m' \<Rightarrow> map_option KindProps (m' ''Hello'') = Some 2 \<and> dom m' = {''Hello''}))"
  using last_registration_wins [of exampleConfig Map.empty helloKind helloKind2]
  by (simp add: exampleConfig_def helloKind_def helloKind2_def)

text \<open>
  C9. \<open>Configure\<close> with no options returns a configuration (no panic) whose cluster-wide
  timeout is 5 seconds, gossip interval 300 milliseconds, gossip request timeout 500
  milliseconds, gossip fan-out 3 and gossip max-send 50; in nanoseconds the three
  durations are 5000000000, 300000000 and 500000000.
\<close>

theorem default_configuration:
  "(case Configure d clusterName clusterProvider identityLookup remoteConfig [] of
      Inl e \<Rightarrow> False
    | Inr c \<Rightarrow>
        TimeoutTime c = 5 * Second \<and> TimeoutTime c = 5000000000 \<and>
        GossipInterval c = 300 * Millisecond \<and> GossipInterval c = 300000000 \<and>
        GossipRequestTimeout c = 500 * Millisecond \<and> GossipRequestTimeout c = 500000000 \<and>
        GossipFanOut c = 3 \<and>
        GossipMaxSend c = 50)"
  by (simp add: Configure_def Second_def Millisecond_def)

end
